theory Spec2Isabelle
  imports Main "HOL-Library.Sublist"
begin

section \<open>JavaScript strings\<close>

text \<open>
  A string is the list of its UTF-16 code units, each a natural number; \<open>js\<close> turns
  a literal of ASCII characters into one. \<open>isWhiteSpace\<close> is the class that both
  \<open>String.prototype.trim\<close> and the regular-expression escape \<open>\s\<close> use: the white
  space and the line terminators of ECMAScript.
\<close>

type_synonym jsstring = "nat list"

abbreviation js :: "string \<Rightarrow> jsstring" where
  "js s \<equiv> map of_char s"

abbreviation ch :: "char \<Rightarrow> nat" where
  "ch c \<equiv> of_char c"

definition isWhiteSpace :: "nat \<Rightarrow> bool" where
  "isWhiteSpace c \<longleftrightarrow>
     c \<in> set [0x09, 0x0A, 0x0B, 0x0C, 0x0D, 0x20, 0xA0, 0x1680, 0x2028, 0x2029, 0x202F, 0x205F,
               0x3000, 0xFEFF]
     \<or> (0x2000 \<le> c \<and> c \<le> 0x200A)"

definition trim :: "jsstring \<Rightarrow> jsstring" where
  "trim s = rev (dropWhile isWhiteSpace (rev (dropWhile isWhiteSpace s)))"


fun includesStr :: "jsstring \<Rightarrow> jsstring \<Rightarrow> bool" where
  "includesStr [] t = (t = [])"
| "includesStr (c # cs) t = (prefix t (c # cs) \<or> includesStr cs t)"

text \<open>Truthiness of a string and of an optional string (\<open>undefined\<close> is \<open>None\<close>).\<close>

definition truthyStr :: "jsstring \<Rightarrow> bool" where
  "truthyStr s \<longleftrightarrow> s \<noteq> []"

definition truthyOpt :: "jsstring option \<Rightarrow> bool" where
  "truthyOpt v \<longleftrightarrow> (case v of None \<Rightarrow> False | Some s \<Rightarrow> truthyStr s)"

section \<open>ChatLog: messages\<close>

datatype role = User | Assistant | System | Tool

datatype message_type = Chat | ToolResult | ToolUse | SystemType | Error | Info

text \<open>
  The fields of \<open>metadata_json\<close> that ChatLog reads, with the types the server gives
  them: \<open>has_images\<close> and \<open>hidden_from_ui\<close> are booleans, \<open>attachments\<close> is an
  array. A field the object does not carry is \<open>None\<close>, and so is a message's
  \<open>metadata_json\<close> when it is missing or \<open>null\<close>.
\<close>

record attachment =
  att_name :: jsstring
  att_url :: jsstring

record metadata =
  has_images :: "bool option"
  attachments :: "attachment list option"
  hidden_from_ui :: "bool option"

record ChatMessage =
  msg_id :: jsstring
  role :: role
  message_type :: "message_type option"
  content :: jsstring
  metadata_json :: "metadata option"
  parent_message_id :: "jsstring option"
  session_id :: "jsstring option"
  conversation_id :: "jsstring option"
  created_at :: jsstring

text \<open>
  A message as the WebSocket hook hands it to \<open>onMessage\<close>: \<open>id\<close>,
  \<open>content\<close> and \<open>created_at\<close> may be missing.
\<close>

record WsMessage =
  ws_id :: "jsstring option"
  ws_role :: role
  ws_message_type :: "message_type option"
  ws_content :: "jsstring option"
  ws_metadata_json :: "metadata option"
  ws_parent_message_id :: "jsstring option"
  ws_session_id :: "jsstring option"
  ws_conversation_id :: "jsstring option"
  ws_created_at :: "jsstring option"

text \<open>
  What the handler reads from its environment while it builds the chat message: the
  identifier built from \<open>Date.now()\<close> and \<open>Math.random()\<close>, and the current time as
  an ISO string.
\<close>

record Clock =
  generated_id :: jsstring
  now_iso :: jsstring

definition orElse :: "jsstring option \<Rightarrow> jsstring \<Rightarrow> jsstring" where
  "orElse v d = (if truthyOpt v then the v else d)"


record ActiveSession =
  as_status :: jsstring
  as_session_id :: "jsstring option"

text \<open>The state of the ChatLog component that the WebSocket handlers touch.\<close>

record ChatLogState =
  messages :: "ChatMessage list"
  isLoading :: bool
  activeSession :: "ActiveSession option"
  isWaitingForResponse :: bool
  pollInterval :: "nat option"



text \<open>
  \<open>loadChatHistory\<close> after its request has been answered: a reply that is \<open>ok\<close>
  carries the stored messages of the project, which replace the transcript; any other
  reply and a request that throws leave it. \<open>isLoading\<close> is set when the request
  is made and cleared in the \<open>finally\<close> block.
\<close>

datatype HistoryReply = HistoryThrew | HistoryNotOk | HistoryOk "ChatMessage list"







subsection \<open>The display filter\<close>

definition hasImages :: "ChatMessage \<Rightarrow> bool" where
  "hasImages message \<longleftrightarrow>
     (case metadata_json message of
        None \<Rightarrow> False
      | Some md \<Rightarrow> has_images md = Some True
                   \<or> (case attachments md of None \<Rightarrow> False | Some as \<Rightarrow> length as > 0))"

definition markedHidden :: "ChatMessage \<Rightarrow> bool" where
  "markedHidden message \<longleftrightarrow>
     (case metadata_json message of None \<Rightarrow> False | Some md \<Rightarrow> hidden_from_ui md = Some True)"

definition shouldDisplayMessage :: "ChatMessage \<Rightarrow> bool" where
  "shouldDisplayMessage message =
     (if hasImages message then True
      else if \<not> truthyStr (content message) \<or> trim (content message) = [] then False
      else if message_type message = Some ToolResult then False
      else if role message = System \<and> message_type message = Some SystemType
              \<and> (includesStr (content message) (js ''initialized'') \<or> includesStr (content message) (js ''Agent''))
           then False
      else if markedHidden message then False
      else True)"

subsection \<open>Cleaning a user message for display\<close>




definition chatModeSuffix :: jsstring where
  "chatModeSuffix = [0x0A, 0x0A] @ (js ''Do not modify code, only answer to the user's request.'')"



subsection \<open>Rendering a user message\<close>












subsection \<open>The status handler\<close>

text \<open>
  The payload of a status event (\<open>data\<close>, which may be absent) and the callbacks the
  component was given; each call the handler makes is recorded in order.
\<close>

record StatusData =
  sd_status :: "jsstring option"
  sd_message :: "jsstring option"
  sd_request_id :: "jsstring option"
  sd_error :: "jsstring option"

record ChatLogProps =
  given_onSessionStatusChange :: bool
  given_onProjectStatusUpdate :: bool
  given_startRequest :: bool
  given_completeRequest :: bool

datatype Callback =
    SessionStatusChange bool
  | ProjectStatusUpdate "jsstring option" "jsstring option"
  | StartRequest jsstring
  | CompleteRequest jsstring bool "jsstring option"
  | ClearInterval nat

definition dataField :: "StatusData option \<Rightarrow> (StatusData \<Rightarrow> jsstring option) \<Rightarrow> jsstring option" where
  "dataField d f = (case d of None \<Rightarrow> None | Some x \<Rightarrow> f x)"

definition onProjectStatus :: "ChatLogProps \<Rightarrow> jsstring \<Rightarrow> StatusData option \<Rightarrow> Callback list" where
  "onProjectStatus props status d =
     (case d of
        Some x \<Rightarrow> if status = js ''project_status'' \<and> given_onProjectStatusUpdate props
                  then [ProjectStatusUpdate (sd_status x) (sd_message x)] else []
      | None \<Rightarrow> [])"

definition onComplete ::
  "ChatLogProps \<Rightarrow> jsstring \<Rightarrow> StatusData option \<Rightarrow> ChatLogState \<Rightarrow> Callback list \<times> ChatLogState" where
  "onComplete props status d st =
     (if status = js ''act_complete'' \<or> status = js ''chat_complete'' then
        (let c1 = (if given_onSessionStatusChange props then [SessionStatusChange False] else []);
             c2 = (if truthyOpt (dataField d sd_request_id) \<and> given_completeRequest props
                   then [CompleteRequest (the (dataField d sd_request_id))
                           (dataField d sd_status = Some (js ''completed''))
                           (dataField d sd_error)]
                   else []);
             c3 = (case pollInterval st of Some t \<Rightarrow> [ClearInterval t] | None \<Rightarrow> [])
         in (c1 @ c2 @ c3,
             st\<lparr>activeSession := None, isWaitingForResponse := False, pollInterval := None\<rparr>))
      else ([], st))"

definition onStart ::
  "ChatLogProps \<Rightarrow> jsstring \<Rightarrow> StatusData option \<Rightarrow> ChatLogState \<Rightarrow> Callback list \<times> ChatLogState" where
  "onStart props status d st =
     (if status = js ''act_start'' \<or> status = js ''chat_start'' then
        (if truthyOpt (dataField d sd_request_id) \<and> given_startRequest props
         then [StartRequest (the (dataField d sd_request_id))] else [],
         st\<lparr>isWaitingForResponse := True\<rparr>)
      else ([], st))"

definition onStatus ::
  "ChatLogProps \<Rightarrow> jsstring \<Rightarrow> StatusData option \<Rightarrow> ChatLogState \<Rightarrow> Callback list \<times> ChatLogState" where
  "onStatus props status d st =
     (let c0 = onProjectStatus props status d;
          (c1, st1) = onComplete props status d st;
          (c2, st2) = onStart props status d st1
      in (c0 @ c1 @ c2, st2))"

subsection \<open>The life of the component\<close>

text \<open>
  What happens to a mounted ChatLog, in the order in which it happens: a message or a
  status event arrives on the WebSocket, the mount effect asks for the history of the
  project, the history request is answered. Nothing else writes the transcript:
  \<open>setMessages\<close> is called in \<open>onMessage\<close> and in \<open>loadChatHistory\<close> only. The
  callbacks of the status handler are of no account here.
\<close>

datatype ChatLogEvent =
    MessageArrived Clock WsMessage
  | StatusArrived jsstring "StatusData option"
  | HistoryRequested
  | HistoryReplied HistoryReply



text \<open>
  The messages that arrive in a sequence of events, and whether a history reply
  replaces the transcript in it.
\<close>

fun arrived :: "ChatLogEvent list \<Rightarrow> (Clock \<times> WsMessage) list" where
  "arrived [] = []"
| "arrived (MessageArrived clk m # es) = (clk, m) # arrived es"
| "arrived (e # es) = arrived es"


section \<open>useUserRequests: polling the active-request status\<close>

text \<open>
  The state of the hook. \<open>intervalRef\<close> is the ref of that name;
  \<open>loggedActiveState\<close> is the hook's ref \<open>previousActiveState\<close>, which only serves
  its log line (the page has a ref of the same name, modelled below).
\<close>

record UserRequestsState =
  hasActiveRequests :: bool
  activeCount :: int
  isTabVisible :: bool
  intervalRef :: "nat option"
  loggedActiveState :: bool

text \<open>
  The outcome of the \<open>GET /api/chat/{projectId}/requests/active\<close> request: \<open>fetch\<close>
  threw, the response was not ok, or it carried \<open>hasActiveRequests\<close> and
  \<open>activeCount\<close>.
\<close>

datatype ActiveFetch = ActiveThrew | ActiveNotOk | ActiveOk bool int

datatype HookCall = GetActiveRequests

definition checkActiveRequests ::
  "ActiveFetch \<Rightarrow> UserRequestsState \<Rightarrow> HookCall list \<times> UserRequestsState" where
  "checkActiveRequests resp st =
     (if \<not> isTabVisible st then ([], st)
      else ([GetActiveRequests],
            (case resp of
               ActiveOk h c \<Rightarrow>
                 (let st1 = st\<lparr>hasActiveRequests := h, activeCount := c\<rparr>
                  in if h \<noteq> loggedActiveState st1 then st1\<lparr>loggedActiveState := h\<rparr> else st1)
             | _ \<Rightarrow> st)))"

text \<open>
  The polling effect: \<open>intervalRef\<close> holds the period in milliseconds of the interval
  timer that is installed, \<open>None\<close> when there is none. The effect checks once at
  once and then leaves the timer to repeat the check.
\<close>

definition pollInterval_ms :: "UserRequestsState \<Rightarrow> nat" where
  "pollInterval_ms st = (if hasActiveRequests st then 500 else 5000)"

definition pollingEffect ::
  "ActiveFetch \<Rightarrow> UserRequestsState \<Rightarrow> HookCall list \<times> UserRequestsState" where
  "pollingEffect resp st =
     (if \<not> isTabVisible st then ([], st\<lparr>intervalRef := None\<rparr>)
      else checkActiveRequests resp (st\<lparr>intervalRef := Some (pollInterval_ms st)\<rparr>))"

section \<open>ChatInput: submitting\<close>

record UploadedFile =
  uf_id :: jsstring
  uf_filename :: jsstring
  uf_path :: jsstring
  uf_url :: jsstring

record ChatInputState =
  message :: jsstring
  uploadedFiles :: "UploadedFile list"
  disabled :: bool

definition handleSubmit ::
  "ChatInputState \<Rightarrow> (jsstring \<times> UploadedFile list) option \<times> ChatInputState" where
  "handleSubmit ci =
     (if (truthyStr (trim (message ci)) \<or> length (uploadedFiles ci) > 0) \<and> \<not> disabled ci then
        (let finalMessage =
               (if truthyStr (trim (message ci)) then trim (message ci)
                else if length (uploadedFiles ci) > 0 then js ''Please analyze the uploaded file(s).''
                else [])
         in (Some (finalMessage, uploadedFiles ci), ci\<lparr>message := [], uploadedFiles := []\<rparr>))
      else (None, ci))"

section \<open>ChatPage\<close>

subsection \<open>Images of a request\<close>

text \<open>
  An element of the image list of \<open>runAct\<close>: a file uploaded through ChatInput has
  \<open>path\<close> and \<open>filename\<close>, one in the old format has \<open>name\<close> and \<open>base64\<close>.
\<close>

record Image =
  img_path :: "jsstring option"
  img_filename :: "jsstring option"
  img_name :: "jsstring option"
  img_base64 :: "jsstring option"

definition asImage :: "UploadedFile \<Rightarrow> Image" where
  "asImage f = \<lparr> img_path = Some (uf_path f), img_filename = Some (uf_filename f),
                 img_name = None, img_base64 = None \<rparr>"

datatype ProcessedImage =
    PathRef jsstring jsstring
  | Base64Data "jsstring option" "jsstring option" "jsstring option"
  | AsIs Image

text \<open>\<open>s.split(c)\<close> for a separator of one code unit, and \<open>xs[i]\<close> on the pieces.\<close>

fun splitOn :: "nat \<Rightarrow> jsstring \<Rightarrow> jsstring list" where
  "splitOn c [] = [ [] ]"
| "splitOn c (x # xs) =
     (if x = c then [] # splitOn c xs
      else (case splitOn c xs of [] \<Rightarrow> [ [x] ] | p # ps \<Rightarrow> (x # p) # ps))"

definition piece :: "jsstring list \<Rightarrow> nat \<Rightarrow> jsstring option" where
  "piece ps i = (if i < length ps then Some (ps ! i) else None)"

definition processImage :: "Image \<Rightarrow> ProcessedImage" where
  "processImage img =
     (if truthyOpt (img_path img) then
        PathRef (the (img_path img))
          (if truthyOpt (img_filename img) then the (img_filename img)
           else if truthyOpt (img_name img) then the (img_name img)
           else js ''image'')
      else if truthyOpt (img_base64 img) then
        Base64Data (img_name img)
          (piece (splitOn (ch (CHR '','')) (the (img_base64 img))) 1)
          (case piece (splitOn (ch (CHR '';'')) (the (img_base64 img))) 0 of
             None \<Rightarrow> None
           | Some h \<Rightarrow> piece (splitOn (ch (CHR '':'')) h) 1)
      else AsIs img)"

subsection \<open>State, requests and replies\<close>

datatype Mode = ActMode | ChatMode

datatype PreviewMessage = MsgStarting | MsgStartFailed | MsgReady | MsgError

record ChatPage =
  previewUrl :: "jsstring option"
  prompt :: jsstring
  mode :: Mode
  isRunning :: bool
  uploadedImages :: "Image list"
  hasInitialPrompt :: bool
  agentWorkComplete :: bool
  storedTaskComplete :: "jsstring option"
  initialPromptSent :: bool
  initialPromptSentRef :: bool
  isStartingPreview :: bool
  previewInitializationMessage :: PreviewMessage
  preferredCli :: jsstring
  selectedModel :: jsstring
  currentRoute :: jsstring
  sessionId :: jsstring
  recordInterruptState :: bool
  previousActiveState :: bool
  urlInitialPrompt :: "jsstring option"
  urlCli :: "jsstring option"
  urlModel :: "jsstring option"
  storedAssistant :: "jsstring option"
  storedModel :: "jsstring option"

record ActRequestBody =
  rb_instruction :: jsstring
  rb_images :: "ProcessedImage list"
  rb_is_initial_prompt :: bool
  rb_cli_preference :: "jsstring option"
  rb_selected_model :: "jsstring option"
  rb_request_id :: jsstring
  rb_session_id :: "jsstring option"

text \<open>
  What a function of the page does to the outside, in order: the requests it posts,
  the alerts it raises, and its calls into the request hook and the file tree.
\<close>

datatype PageCall =
    PostAct Mode ActRequestBody
  | PostPreviewStart
  | PostPreviewStop
  | PostInterrupt jsstring
  | AlertEmptyInput
  | AlertError
  | AlertNotConnected
  | CreateRequest jsstring "jsstring option" jsstring Mode
  | LoadTree

text \<open>
  The outcome of the one request a call makes: \<open>fetch\<close> (or reading the body) threw,
  the response was not ok, or it was ok and carried the field the caller reads
  (\<open>session_id\<close>, \<open>url\<close>), which may be missing.
\<close>

datatype Reply = Threw | NotOk | Ok "jsstring option"

definition nonEmptyOrNull :: "jsstring \<Rightarrow> jsstring option" where
  "nonEmptyOrNull s = (if truthyStr s then Some s else None)"

text \<open>The page as it is first rendered: every state at its initial value.\<close>

definition initialPage :: ChatPage where
  "initialPage =
     \<lparr> previewUrl = None, prompt = [], mode = ActMode, isRunning = False,
       uploadedImages = [], hasInitialPrompt = False, agentWorkComplete = False,
       storedTaskComplete = None, initialPromptSent = False, initialPromptSentRef = False,
       isStartingPreview = False, previewInitializationMessage = MsgStarting,
       preferredCli = js ''claude'', selectedModel = [], currentRoute = [], sessionId = [],
       recordInterruptState = False, previousActiveState = False, urlInitialPrompt = None,
       urlCli = None, urlModel = None, storedAssistant = None, storedModel = None \<rparr>"

subsection \<open>runAct\<close>

definition runAct ::
  "jsstring option \<Rightarrow> Image list option \<Rightarrow> jsstring \<Rightarrow> Reply \<Rightarrow> ChatPage \<Rightarrow> PageCall list \<times> ChatPage" where
  "runAct messageOverride externalImages requestId reply st =
     (let finalMessage0 = (if truthyOpt messageOverride then the messageOverride else prompt st);
          imagesToUse = (case externalImages of Some imgs \<Rightarrow> imgs | None \<Rightarrow> uploadedImages st)
      in if \<not> truthyStr (trim finalMessage0) \<and> length imagesToUse = 0 then ([AlertEmptyInput], st)
         else
           (let finalMessage1 =
                  (if \<not> truthyStr (trim finalMessage0) \<and> length imagesToUse > 0
                   then js ''Please analyze the uploaded image(s).'' else finalMessage0);
                finalMessage =
                  (if mode st = ChatMode then finalMessage1 @ chatModeSuffix else finalMessage1);
                requestBody =
                  \<lparr> rb_instruction = finalMessage,
                    rb_images = map processImage imagesToUse,
                    rb_is_initial_prompt = False,
                    rb_cli_preference = Some (preferredCli st),
                    rb_selected_model = Some (selectedModel st),
                    rb_request_id = requestId,
                    rb_session_id = nonEmptyOrNull (sessionId st) \<rparr>;
                post = PostAct (mode st) requestBody
            in (case reply of
                  Threw \<Rightarrow> ([post, AlertError], st\<lparr>isRunning := False\<rparr>)
                | NotOk \<Rightarrow> ([post, AlertError], st\<lparr>isRunning := False\<rparr>)
                | Ok sid \<Rightarrow>
                    ([post, CreateRequest requestId sid finalMessage (mode st), LoadTree],
                     st\<lparr>sessionId := orElse sid [], prompt := [], uploadedImages := [],
                        isRunning := False\<rparr>))))"

text \<open>The request that \<open>runAct\<close> posts, if it posts one.\<close>

definition posted :: "PageCall list \<Rightarrow> (Mode \<times> ActRequestBody) list" where
  "posted cs = concat (map (\<lambda>c. case c of PostAct m b \<Rightarrow> [(m, b)] | _ \<Rightarrow> []) cs)"

text \<open>ChatInput hands a submission to the page through \<open>onSendMessage\<close>.\<close>

definition submit ::
  "ChatInputState \<Rightarrow> jsstring \<Rightarrow> Reply \<Rightarrow> ChatPage \<Rightarrow> PageCall list \<times> ChatPage" where
  "submit ci requestId reply st =
     (case fst (handleSubmit ci) of
        None \<Rightarrow> ([], st)
      | Some (msg, files) \<Rightarrow> runAct (Some msg) (Some (map asImage files)) requestId reply st)"

subsection \<open>Starting and stopping the preview\<close>

definition stop :: "Reply \<Rightarrow> ChatPage \<Rightarrow> PageCall list \<times> ChatPage" where
  "stop reply st =
     ([PostPreviewStop],
      (case reply of
         Threw \<Rightarrow> st
       | _ \<Rightarrow> st\<lparr>previewUrl := None, recordInterruptState := False, currentRoute := []\<rparr>))"

definition start :: "jsstring \<Rightarrow> Reply \<Rightarrow> ChatPage \<Rightarrow> PageCall list \<times> ChatPage" where
  "start url reply st =
     (if recordInterruptState st then stop reply st
      else
        (let st1 = st\<lparr>isStartingPreview := True, previewInitializationMessage := MsgStarting\<rparr>
         in if truthyStr url then
              ([], st1\<lparr>previewInitializationMessage := MsgReady, previewUrl := Some url,
                       isStartingPreview := False, currentRoute := []\<rparr>)
            else
              (case reply of
                 Threw \<Rightarrow>
                   ([PostPreviewStart],
                    st1\<lparr>previewInitializationMessage := MsgError, isStartingPreview := False\<rparr>)
               | NotOk \<Rightarrow>
                   ([PostPreviewStart],
                    st1\<lparr>previewInitializationMessage := MsgStartFailed, isStartingPreview := False\<rparr>)
               | Ok u \<Rightarrow>
                   ([PostPreviewStart],
                    st1\<lparr>previewInitializationMessage := MsgReady, previewUrl := u,
                        isStartingPreview := False, currentRoute := []\<rparr>))))"

text \<open>
  \<open>chatInputStop\<close>: the third component tells whether the function threw to its
  caller.
\<close>

definition chatInputStop :: "Reply \<Rightarrow> ChatPage \<Rightarrow> PageCall list \<times> ChatPage \<times> bool" where
  "chatInputStop reply st =
     (case reply of
        Ok _ \<Rightarrow> ([PostInterrupt (sessionId st)], st\<lparr>recordInterruptState := True\<rparr>, False)
      | _ \<Rightarrow> ([PostInterrupt (sessionId st), AlertNotConnected], st, True))"

subsection \<open>Automatic control of the preview\<close>

text \<open>
  The effect that runs when \<open>hasActiveRequests\<close> or \<open>previewUrl\<close> changes. Both
  conditions read the values of the render the effect belongs to; \<open>previewActions\<close>
  lists the functions it invokes, in order.
\<close>

datatype PreviewAction = InvokeStop | InvokeStart

definition previewActions :: "bool \<Rightarrow> ChatPage \<Rightarrow> PreviewAction list" where
  "previewActions active st =
     (if active \<and> truthyOpt (previewUrl st) then [InvokeStop] else []) @
     (if previousActiveState st \<and> \<not> active \<and> \<not> truthyOpt (previewUrl st)
      then [InvokeStart] else [])"

fun perform :: "PreviewAction list \<Rightarrow> Reply \<Rightarrow> ChatPage \<Rightarrow> PageCall list \<times> ChatPage" where
  "perform [] reply st = ([], st)"
| "perform (InvokeStop # as) reply st =
     (let (c1, st1) = stop reply st; (c2, st2) = perform as reply st1 in (c1 @ c2, st2))"
| "perform (InvokeStart # as) reply st =
     (let (c1, st1) = start [] reply st; (c2, st2) = perform as reply st1 in (c1 @ c2, st2))"

definition autoPreviewEffect :: "bool \<Rightarrow> Reply \<Rightarrow> ChatPage \<Rightarrow> PageCall list \<times> ChatPage" where
  "autoPreviewEffect active reply st =
     (let (cs, st1) = perform (previewActions active st) reply st
      in (cs, st1\<lparr>previousActiveState := active\<rparr>))"

text \<open>The callback the page gives to ChatLog as \<open>onSessionStatusChange\<close>.\<close>

definition onSessionStatusChange :: "bool \<Rightarrow> Reply \<Rightarrow> ChatPage \<Rightarrow> PageCall list \<times> ChatPage" where
  "onSessionStatusChange isRunningValue reply st =
     (let st1 = st\<lparr>isRunning := isRunningValue\<rparr>
      in if \<not> isRunningValue \<and> hasInitialPrompt st \<and> \<not> agentWorkComplete st
            \<and> \<not> truthyOpt (previewUrl st)
         then start [] reply (st1\<lparr>agentWorkComplete := True, storedTaskComplete := Some (js ''true'')\<rparr>)
         else ([], st1))"

subsection \<open>The initial prompt\<close>

text \<open>
  \<open>triggerInitialPromptIfNeeded\<close> returns the prompt for which it has set the timer
  that calls \<open>sendInitialPrompt\<close>, if it has set one.
\<close>

definition triggerInitialPromptIfNeeded :: "ChatPage \<Rightarrow> jsstring option \<times> ChatPage" where
  "triggerInitialPromptIfNeeded st =
     (if \<not> truthyOpt (urlInitialPrompt st) then (None, st)
      else if initialPromptSentRef st then (None, st)
      else
        (let st1 = st\<lparr>initialPromptSentRef := True, initialPromptSent := True\<rparr>;
             st2 = (if truthyOpt (urlCli st) then st1\<lparr>storedAssistant := urlCli st\<rparr> else st1);
             st3 = (if truthyOpt (urlModel st) then st2\<lparr>storedModel := urlModel st\<rparr> else st2)
         in (urlInitialPrompt st, st3)))"

text \<open>
  \<open>sendInitialPrompt\<close> is a closure: \<open>initialPromptSent\<close> and \<open>sessionId\<close> have the
  values of the render in which the trigger was built, which the caller supplies.
\<close>

record Captured =
  cap_initialPromptSent :: bool
  cap_sessionId :: jsstring

definition sendInitialPrompt ::
  "Captured \<Rightarrow> jsstring \<Rightarrow> jsstring \<Rightarrow> Reply \<Rightarrow> ChatPage \<Rightarrow> PageCall list \<times> ChatPage" where
  "sendInitialPrompt cap initialPrompt requestId reply st =
     (if cap_initialPromptSent cap then ([], st)
      else
        (let st1 = st\<lparr>agentWorkComplete := False, storedTaskComplete := Some (js ''false''),
                      initialPromptSent := True\<rparr>;
             requestBody =
               \<lparr> rb_instruction = initialPrompt,
                 rb_images = [],
                 rb_is_initial_prompt = True,
                 rb_cli_preference = None,
                 rb_selected_model = None,
                 rb_request_id = requestId,
                 rb_session_id = nonEmptyOrNull (cap_sessionId cap) \<rparr>;
             post = PostAct ActMode requestBody
         in (case reply of
               Threw \<Rightarrow> ([post], st1\<lparr>initialPromptSent := False, isRunning := False\<rparr>)
             | NotOk \<Rightarrow> ([post], st1\<lparr>initialPromptSent := False, isRunning := False\<rparr>)
             | Ok sid \<Rightarrow>
                 ([post, CreateRequest requestId sid initialPrompt ActMode],
                  st1\<lparr>sessionId := orElse sid [], prompt := [], urlInitialPrompt := None,
                      isRunning := False\<rparr>))))"

text \<open>
  The life of a page: the trigger is called when the project is found active on load
  and when a status event reports it active; a timer that the trigger has set fires
  and runs \<open>sendInitialPrompt\<close> to its end; the query string changes. \<open>pending\<close>
  holds the prompts of the timers that have not fired yet, \<open>calls\<close> everything the
  page has done so far.
\<close>

datatype PageEvent =
    ProjectLoadedActive
  | StatusBecameActive
  | TimerFired Captured jsstring Reply
  | UrlChanged "jsstring option"

record Lifetime =
  page :: ChatPage
  pending :: "jsstring list"
  calls :: "PageCall list"

definition trigger :: "Lifetime \<Rightarrow> Lifetime" where
  "trigger lt =
     (case triggerInitialPromptIfNeeded (page lt) of
        (None, st) \<Rightarrow> lt\<lparr>page := st\<rparr>
      | (Some p, st) \<Rightarrow> lt\<lparr>page := st, pending := pending lt @ [p]\<rparr>)"

fun pageStep :: "PageEvent \<Rightarrow> Lifetime \<Rightarrow> Lifetime" where
  "pageStep ProjectLoadedActive lt = trigger lt"
| "pageStep StatusBecameActive lt = trigger lt"
| "pageStep (TimerFired cap requestId reply) lt =
     (case pending lt of
        [] \<Rightarrow> lt
      | p # ps \<Rightarrow>
          (let (cs, st) = sendInitialPrompt cap p requestId reply (page lt)
           in lt\<lparr>page := st, pending := ps, calls := calls lt @ cs\<rparr>))"
| "pageStep (UrlChanged q) lt = lt\<lparr>page := (page lt)\<lparr>urlInitialPrompt := q\<rparr>\<rparr>"

fun runPage :: "PageEvent list \<Rightarrow> Lifetime \<Rightarrow> Lifetime" where
  "runPage [] lt = lt"
| "runPage (e # es) lt = runPage es (pageStep e lt)"

text \<open>A page as it is mounted: the ref and the state start as \<open>false\<close>.\<close>

definition mounted :: "ChatPage \<Rightarrow> Lifetime" where
  "mounted st = \<lparr> page = st\<lparr>initialPromptSent := False, initialPromptSentRef := False\<rparr>,
                  pending = [], calls = [] \<rparr>"

definition initialPromptPosts :: "PageCall list \<Rightarrow> ActRequestBody list" where
  "initialPromptPosts cs = filter rb_is_initial_prompt (map snd (posted cs))"

section \<open>Invariants and sample inputs\<close>

text \<open>
  The invariant of a page's life: until the ref is set nothing is pending and nothing
  was sent, and the timers that are pending and the initial prompts that were posted
  number one at most.
\<close>

definition promptInv :: "Lifetime \<Rightarrow> bool" where
  "promptInv lt \<longleftrightarrow>
     (\<not> initialPromptSentRef (page lt) \<longrightarrow> pending lt = [] \<and> initialPromptPosts (calls lt) = [])
     \<and> length (pending lt) + length (initialPromptPosts (calls lt)) \<le> 1"

definition isCompleteRequest :: "Callback \<Rightarrow> bool" where
  "isCompleteRequest c = (case c of CompleteRequest _ _ _ \<Rightarrow> True | _ \<Rightarrow> False)"






definition sampleMessage :: "jsstring \<Rightarrow> role \<Rightarrow> jsstring \<Rightarrow> metadata option \<Rightarrow> ChatMessage" where
  "sampleMessage i r txt md =
     \<lparr> msg_id = i, role = r, message_type = Some Chat, content = txt, metadata_json = md,
       parent_message_id = None, session_id = None, conversation_id = None,
       created_at = js ''2025-01-01T00:00:00Z'' \<rparr>"

definition hiddenPlain :: ChatMessage where
  "hiddenPlain = sampleMessage (js ''m7'') Assistant (js ''Session completed in 1200ms'')
     (Some \<lparr> has_images = None, attachments = None, hidden_from_ui = Some True \<rparr>)"

definition hiddenWithImages :: ChatMessage where
  "hiddenWithImages = sampleMessage (js ''m8'') User (js ''internal note'')
     (Some \<lparr> has_images = Some True, attachments = None, hidden_from_ui = Some True \<rparr>)"

definition completedEvent :: StatusData where
  "completedEvent = \<lparr> sd_status = Some (js ''completed''), sd_message = None,
                      sd_request_id = Some (js ''req-1''), sd_error = None \<rparr>"

definition allCallbacks :: ChatLogProps where
  "allCallbacks = \<lparr> given_onSessionStatusChange = True, given_onProjectStatusUpdate = True,
                     given_startRequest = True, given_completeRequest = True \<rparr>"

definition waitingChatLog :: ChatLogState where
  "waitingChatLog = \<lparr> messages = [], isLoading = False,
                      activeSession = Some \<lparr> as_status = js ''running'',
                        as_session_id = Some (js ''s1'') \<rparr>, isWaitingForResponse = True,
                      pollInterval = None \<rparr>"





definition busyHook :: UserRequestsState where
  "busyHook = \<lparr> hasActiveRequests = True, activeCount = 1, isTabVisible = True,
                intervalRef = None, loggedActiveState = True \<rparr>"

definition idleHook :: UserRequestsState where
  "idleHook = \<lparr> hasActiveRequests = False, activeCount = 0, isTabVisible = True,
                intervalRef = None, loggedActiveState = False \<rparr>"

definition sampleFile :: UploadedFile where
  "sampleFile = \<lparr> uf_id = js ''f1'', uf_filename = js ''chart.png'',
                   uf_path = js ''/data/projects/p1/assets/chart.png'',
                   uf_url = js ''/api/assets/p1/chart.png'' \<rparr>"

definition onlyFile :: ChatInputState where
  "onlyFile = \<lparr> message = js ''  '', uploadedFiles = [sampleFile], disabled = False \<rparr>"

definition nothingEntered :: ChatInputState where
  "nothingEntered = \<lparr> message = js '' '', uploadedFiles = [], disabled = False \<rparr>"

definition chatPage :: ChatPage where
  "chatPage = initialPage\<lparr>mode := ChatMode\<rparr>"

definition interruptedPage :: ChatPage where
  "interruptedPage = initialPage\<lparr>recordInterruptState := True, previousActiveState := True\<rparr>"

definition previewingPage :: ChatPage where
  "previewingPage = initialPage\<lparr>previewUrl := Some (js ''http://localhost:3000'')\<rparr>"

definition finishedPage :: ChatPage where
  "finishedPage = initialPage\<lparr>previousActiveState := True\<rparr>"

definition promptedPage :: ChatPage where
  "promptedPage = initialPage\<lparr>hasInitialPrompt := True\<rparr>"

definition blankPromptUrlPage :: ChatPage where
  "blankPromptUrlPage = initialPage\<lparr>urlInitialPrompt := Some (js '' '')\<rparr>"


definition promptedUrlPage :: ChatPage where
  "promptedUrlPage = initialPage\<lparr>urlInitialPrompt := Some (js ''build a dashboard'')\<rparr>"

definition failedThenRetried :: "PageEvent list" where
  "failedThenRetried =
     [ProjectLoadedActive, StatusBecameActive,
      TimerFired \<lparr>cap_initialPromptSent = False, cap_sessionId = []\<rparr> (js ''r1'') NotOk,
      StatusBecameActive, ProjectLoadedActive,
      TimerFired \<lparr>cap_initialPromptSent = False, cap_sessionId = []\<rparr> (js ''r2'') (Ok None)]"

section \<open>General lemmas\<close>


section \<open>The transcript of a viewer\<close>








lemma arrived_Cons: "arrived (e # es) = arrived [e] @ arrived es"
  by (cases e) simp_all

lemma arrived_append: "arrived (xs @ ys) = arrived xs @ arrived ys"
proof (induction xs)
  case Nil
  show ?case by simp
next
  case (Cons e es)
  show ?case using arrived_Cons [of e "es @ ys"] arrived_Cons [of e es] Cons.IH by simp
qed














section \<open>Hidden messages and the display filter\<close>

text \<open>
  Claim C4, as the filter has it. A message marked hidden that has neither the
  \<open>has_images\<close> flag nor an attachment is not displayed, whatever its role, its
  kind and its content are.
\<close>

theorem C4_hidden_without_images_not_displayed:
  assumes hidden: "markedHidden m" and plain: "\<not> hasImages m"
  shows "\<not> shouldDisplayMessage m"
proof -
  from plain have "shouldDisplayMessage m \<longrightarrow> \<not> markedHidden m"
    by (simp add: shouldDisplayMessage_def split: if_splits)
  with hidden show ?thesis by blast
qed

text \<open>The theorem at a hidden result message of an assistant, which carries no image.\<close>

theorem C4_hidden_witness:
  "markedHidden hiddenPlain \<and> \<not> hasImages hiddenPlain \<and> \<not> shouldDisplayMessage hiddenPlain"
proof -
  have h: "markedHidden hiddenPlain"
    by (simp add: markedHidden_def hiddenPlain_def sampleMessage_def)
  have i: "\<not> hasImages hiddenPlain"
    by (simp add: hasImages_def hiddenPlain_def sampleMessage_def)
  from C4_hidden_without_images_not_displayed [OF h i] h i show ?thesis by simp
qed

text \<open>
  Claim C4 as it is stated fails: the test for images comes first in the filter, so a
  message that is marked hidden and has the \<open>has_images\<close> flag is displayed.
\<close>

theorem C4_hidden_with_images_displayed:
  "markedHidden hiddenWithImages \<and> shouldDisplayMessage hiddenWithImages"
  by (simp add: markedHidden_def shouldDisplayMessage_def hasImages_def hiddenWithImages_def
        sampleMessage_def)

section \<open>Completion of a session\<close>

text \<open>
  Claim C6. On a status event \<open>act_complete\<close> or \<open>chat_complete\<close> the active session
  is cleared, the waiting state is cleared, and the page is told that the session no
  longer runs. When the event carries a request id and the component was given
  \<open>completeRequest\<close>, it is called once, with that id, with a success flag that is
  true exactly when the event's \<open>status\<close> field is \<open>completed\<close>, and with the
  event's error text.
\<close>

theorem C6_session_complete:
  "status = js ''act_complete'' \<or> status = js ''chat_complete'' \<Longrightarrow>
     activeSession (snd (onStatus props status d st)) = None
   \<and> isWaitingForResponse (snd (onStatus props status d st)) = False
   \<and> (given_onSessionStatusChange props \<longrightarrow>
        SessionStatusChange False \<in> set (fst (onStatus props status d st)))
   \<and> (\<forall>rid. given_completeRequest props \<and> dataField d sd_request_id = Some rid \<and> rid \<noteq> [] \<longrightarrow>
        filter isCompleteRequest (fst (onStatus props status d st)) =
          [CompleteRequest rid (dataField d sd_status = Some (js ''completed'')) (dataField d sd_error)])"
proof -
  assume c: "status = js ''act_complete'' \<or> status = js ''chat_complete''"
  then have other: "status \<noteq> js ''act_start''" "status \<noteq> js ''chat_start''"
    "status \<noteq> js ''project_status''"
    by auto
  let ?c1 = "if given_onSessionStatusChange props then [SessionStatusChange False] else []"
  let ?c2 = "if truthyOpt (dataField d sd_request_id) \<and> given_completeRequest props
             then [CompleteRequest (the (dataField d sd_request_id))
                     (dataField d sd_status = Some (js ''completed'')) (dataField d sd_error)]
             else []"
  let ?c3 = "case pollInterval st of Some t \<Rightarrow> [ClearInterval t] | None \<Rightarrow> []"
  have run: "onStatus props status d st =
               (?c1 @ ?c2 @ ?c3,
                st\<lparr>activeSession := None, isWaitingForResponse := False, pollInterval := None\<rparr>)"
    using c other
    by (auto simp: onStatus_def onComplete_def onStart_def onProjectStatus_def Let_def
          split: option.splits)
  have none3: "filter isCompleteRequest ?c3 = []"
    by (simp add: isCompleteRequest_def split: option.splits)
  have none1: "filter isCompleteRequest ?c1 = []"
    by (simp add: isCompleteRequest_def)
  have "filter isCompleteRequest (fst (onStatus props status d st)) =
          [CompleteRequest rid (dataField d sd_status = Some (js ''completed'')) (dataField d sd_error)]"
    if "given_completeRequest props \<and> dataField d sd_request_id = Some rid \<and> rid \<noteq> []" for rid
    using that none1 none3
    by (simp add: run truthyOpt_def truthyStr_def isCompleteRequest_def)
  then show ?thesis by (simp add: run)
qed

text \<open>
  The theorem at an \<open>act_complete\<close> event with status \<open>completed\<close> and request id
  \<open>req-1\<close>, received while a session is active and a response awaited.
\<close>

theorem C6_session_complete_witness:
  "given_onSessionStatusChange allCallbacks \<and> given_completeRequest allCallbacks
   \<and> dataField (Some completedEvent) sd_request_id = Some (js ''req-1'')
   \<and> activeSession (snd (onStatus allCallbacks (js ''act_complete'') (Some completedEvent) waitingChatLog)) = None
   \<and> isWaitingForResponse (snd (onStatus allCallbacks (js ''act_complete'') (Some completedEvent) waitingChatLog)) = False
   \<and> SessionStatusChange False
        \<in> set (fst (onStatus allCallbacks (js ''act_complete'') (Some completedEvent) waitingChatLog))
   \<and> filter isCompleteRequest
        (fst (onStatus allCallbacks (js ''act_complete'') (Some completedEvent) waitingChatLog)) =
        [CompleteRequest (js ''req-1'') True None]"
proof -
  have g: "given_onSessionStatusChange allCallbacks" "given_completeRequest allCallbacks"
    by (simp_all add: allCallbacks_def)
  have r: "dataField (Some completedEvent) sd_request_id = Some (js ''req-1'')"
    "dataField (Some completedEvent) sd_status = Some (js ''completed'')"
    "dataField (Some completedEvent) sd_error = None"
    by (simp_all add: dataField_def completedEvent_def)
  have s: "(js ''act_complete'') = js ''act_complete'' \<or> (js ''act_complete'') = js ''chat_complete''" by simp
  from C6_session_complete [OF s, of allCallbacks "Some completedEvent" waitingChatLog] g r
  show ?thesis by simp
qed

section \<open>Polling of the active-request status\<close>

text \<open>
  Claim C7, as the hook has it. While the tab is visible a check of the status is one
  \<open>GET\<close> request, and the polling effect installs a timer that repeats the check
  every 500 milliseconds while requests are active and every 5000 milliseconds while
  none is: the interval is below one second exactly while requests are active.
\<close>

theorem C7_polling_interval:
  "isTabVisible st \<Longrightarrow>
     fst (checkActiveRequests resp st) = [GetActiveRequests]
   \<and> intervalRef (snd (pollingEffect resp st)) = Some (pollInterval_ms st)
   \<and> pollInterval_ms st = (if hasActiveRequests st then 500 else 5000)
   \<and> (pollInterval_ms st < 1000 \<longleftrightarrow> hasActiveRequests st)"
proof -
  assume v: "isTabVisible st"
  then have q: "fst (checkActiveRequests resp st) = [GetActiveRequests]"
    by (simp add: checkActiveRequests_def)
  have kept: "intervalRef (snd (checkActiveRequests resp s)) = intervalRef s" for s
    by (cases resp) (simp_all add: checkActiveRequests_def Let_def)
  have "pollingEffect resp st =
          checkActiveRequests resp (st\<lparr>intervalRef := Some (pollInterval_ms st)\<rparr>)"
    using v by (simp add: pollingEffect_def)
  then have i: "intervalRef (snd (pollingEffect resp st)) = Some (pollInterval_ms st)"
    by (simp add: kept)
  have p: "pollInterval_ms st = (if hasActiveRequests st then 500 else 5000)"
    by (simp add: pollInterval_ms_def)
  from q i p show ?thesis by simp
qed

text \<open>The theorem at a visible tab with one active request: the interval is 500 ms.\<close>

theorem C7_polling_witness:
  "isTabVisible busyHook
   \<and> intervalRef (snd (pollingEffect (ActiveOk True 1) busyHook)) = Some 500
   \<and> pollInterval_ms busyHook < 1000"
proof -
  have v: "isTabVisible busyHook" by (simp add: busyHook_def)
  have a: "hasActiveRequests busyHook" by (simp add: busyHook_def)
  from C7_polling_interval [OF v, of "ActiveOk True 1"] v a show ?thesis by simp
qed

text \<open>
  Claim C7 as it is stated fails: with a visible tab and no active request the hook
  polls, and the interval it installs is 5000 milliseconds, which is not below one
  second.
\<close>

theorem C7_idle_interval_five_seconds:
  "isTabVisible idleHook
   \<and> fst (pollingEffect (ActiveOk False 0) idleHook) = [GetActiveRequests]
   \<and> intervalRef (snd (pollingEffect (ActiveOk False 0) idleHook)) = Some 5000
   \<and> \<not> (5000 :: nat) < 1000"
  by (simp add: checkActiveRequests_def pollingEffect_def pollInterval_ms_def idleHook_def)

section \<open>Submitting an instruction\<close>

lemma posted_runAct_text:
  assumes "truthyStr (trim (if truthyOpt mo then the mo else prompt st))"
  shows "posted (fst (runAct mo ei rid reply st)) =
           [(mode st,
             \<lparr> rb_instruction = (if truthyOpt mo then the mo else prompt st) @
                                  (if mode st = ChatMode then chatModeSuffix else []),
               rb_images = map processImage
                             (case ei of Some imgs \<Rightarrow> imgs | None \<Rightarrow> uploadedImages st),
               rb_is_initial_prompt = False,
               rb_cli_preference = Some (preferredCli st),
               rb_selected_model = Some (selectedModel st),
               rb_request_id = rid,
               rb_session_id = nonEmptyOrNull (sessionId st) \<rparr>)]"
  using assms by (cases reply) (simp_all add: runAct_def posted_def Let_def)

lemma posted_runAct_blank_images:
  assumes "\<not> truthyStr (trim (if truthyOpt mo then the mo else prompt st))"
    and "(case ei of Some imgs \<Rightarrow> imgs | None \<Rightarrow> uploadedImages st) \<noteq> []"
  shows "posted (fst (runAct mo ei rid reply st)) =
           [(mode st,
             \<lparr> rb_instruction = js ''Please analyze the uploaded image(s).'' @
                                  (if mode st = ChatMode then chatModeSuffix else []),
               rb_images = map processImage
                             (case ei of Some imgs \<Rightarrow> imgs | None \<Rightarrow> uploadedImages st),
               rb_is_initial_prompt = False,
               rb_cli_preference = Some (preferredCli st),
               rb_selected_model = Some (selectedModel st),
               rb_request_id = rid,
               rb_session_id = nonEmptyOrNull (sessionId st) \<rparr>)]"
  using assms by (cases reply) (simp_all add: runAct_def posted_def Let_def)

lemma runAct_blank_no_images:
  assumes "\<not> truthyStr (trim (if truthyOpt mo then the mo else prompt st))"
    and "(case ei of Some imgs \<Rightarrow> imgs | None \<Rightarrow> uploadedImages st) = []"
  shows "runAct mo ei rid reply st = ([AlertEmptyInput], st)"
  using assms by (simp add: runAct_def Let_def)

lemma handleSubmit_blank_files:
  assumes "\<not> disabled ci" "trim (message ci) = []" "uploadedFiles ci \<noteq> []"
  shows "fst (handleSubmit ci) = Some ((js ''Please analyze the uploaded file(s).''), uploadedFiles ci)"
  using assms by (simp add: handleSubmit_def truthyStr_def Let_def)

lemma handleSubmit_blank_nothing:
  assumes "trim (message ci) = []" "uploadedFiles ci = []"
  shows "handleSubmit ci = (None, ci)"
  using assms by (simp add: handleSubmit_def truthyStr_def)

lemma processImage_asImage:
  "uf_path f \<noteq> [] \<Longrightarrow> \<exists>n. processImage (asImage f) = PathRef (uf_path f) n"
  by (simp add: processImage_def asImage_def truthyOpt_def truthyStr_def)

text \<open>
  Claim C5, for what is submitted through the chat input. A submission from an
  enabled ChatInput whose text is empty or white space only and whose file list is
  not empty posts one request: its instruction is the default text (followed by the
  chat-mode suffix in chat mode), which is not blank, and its image list has one
  entry for each file, a reference to the file's path when the file has one. With no text and no file nothing is submitted. The same
  holds of \<open>runAct\<close> called by itself: a blank instruction with images is replaced
  by its default text, and a blank instruction with no image raises the alert and
  posts nothing.
\<close>

theorem C5_default_instruction:
  "(\<not> disabled ci \<and> trim (message ci) = [] \<and> uploadedFiles ci \<noteq> [] \<longrightarrow>
      (\<exists>body. posted (fst (submit ci rid reply st)) = [(mode st, body)]
          \<and> rb_instruction body = js ''Please analyze the uploaded file(s).'' @
                                   (if mode st = ChatMode then chatModeSuffix else [])
          \<and> trim (rb_instruction body) \<noteq> []
          \<and> rb_images body = map (\<lambda>f. processImage (asImage f)) (uploadedFiles ci)
          \<and> (\<forall>f \<in> set (uploadedFiles ci). uf_path f \<noteq> [] \<longrightarrow>
                (\<exists>n. PathRef (uf_path f) n \<in> set (rb_images body)))))
   \<and> (trim (message ci) = [] \<and> uploadedFiles ci = [] \<longrightarrow>
        submit ci rid reply st = ([], st))
   \<and> (trim (if truthyOpt mo then the mo else prompt st) = []
        \<and> (case ei of Some imgs \<Rightarrow> imgs | None \<Rightarrow> uploadedImages st) \<noteq> [] \<longrightarrow>
      (\<exists>body. posted (fst (runAct mo ei rid reply st)) = [(mode st, body)]
          \<and> rb_instruction body = js ''Please analyze the uploaded image(s).'' @
                                   (if mode st = ChatMode then chatModeSuffix else [])
          \<and> trim (rb_instruction body) \<noteq> []
          \<and> rb_images body = map processImage
                                (case ei of Some imgs \<Rightarrow> imgs | None \<Rightarrow> uploadedImages st)))
   \<and> (trim (if truthyOpt mo then the mo else prompt st) = []
        \<and> (case ei of Some imgs \<Rightarrow> imgs | None \<Rightarrow> uploadedImages st) = [] \<longrightarrow>
        runAct mo ei rid reply st = ([AlertEmptyInput], st))"
proof (intro conjI impI)
  assume a: "\<not> disabled ci \<and> trim (message ci) = [] \<and> uploadedFiles ci \<noteq> []"
  let ?d = "(js ''Please analyze the uploaded file(s).'')"
  let ?b = "\<lparr> rb_instruction = ?d @ (if mode st = ChatMode then chatModeSuffix else []),
             rb_images = map processImage (map asImage (uploadedFiles ci)),
             rb_is_initial_prompt = False,
             rb_cli_preference = Some (preferredCli st),
             rb_selected_model = Some (selectedModel st),
             rb_request_id = rid,
             rb_session_id = nonEmptyOrNull (sessionId st) \<rparr>"
  have t: "truthyStr (trim (if truthyOpt (Some ?d) then the (Some ?d) else prompt st))"
    by (simp add: trim_def isWhiteSpace_def truthyStr_def truthyOpt_def)
  have s: "submit ci rid reply st =
             runAct (Some ?d) (Some (map asImage (uploadedFiles ci))) rid reply st"
    using a handleSubmit_blank_files [of ci] by (simp add: submit_def)
  have p: "posted (fst (submit ci rid reply st)) = [(mode st, ?b)]"
    unfolding s using posted_runAct_text [OF t, of "Some (map asImage (uploadedFiles ci))" rid reply]
    by (simp add: truthyOpt_def truthyStr_def)
  have n: "trim (rb_instruction ?b) \<noteq> []"
    by (simp add: trim_def isWhiteSpace_def chatModeSuffix_def)
  have r: "\<forall>f \<in> set (uploadedFiles ci). uf_path f \<noteq> [] \<longrightarrow>
                (\<exists>n. PathRef (uf_path f) n \<in> set (rb_images ?b))"
  proof (intro ballI impI)
    fix f assume f: "f \<in> set (uploadedFiles ci)" and "uf_path f \<noteq> []"
    then obtain n where "processImage (asImage f) = PathRef (uf_path f) n"
      using processImage_asImage by blast
    then have "PathRef (uf_path f) n \<in> (\<lambda>f. processImage (asImage f)) ` set (uploadedFiles ci)"
      using f by (metis (mono_tags, lifting) image_eqI)
    then show "\<exists>n. PathRef (uf_path f) n \<in> set (rb_images ?b)"
      by (auto simp: image_iff)
  qed
  show "\<exists>body. posted (fst (submit ci rid reply st)) = [(mode st, body)]
          \<and> rb_instruction body = ?d @ (if mode st = ChatMode then chatModeSuffix else [])
          \<and> trim (rb_instruction body) \<noteq> []
          \<and> rb_images body = map (\<lambda>f. processImage (asImage f)) (uploadedFiles ci)
          \<and> (\<forall>f \<in> set (uploadedFiles ci). uf_path f \<noteq> [] \<longrightarrow>
                (\<exists>n. PathRef (uf_path f) n \<in> set (rb_images body)))"
    using p n r by (intro exI [of _ ?b]) (simp add: comp_def)
next
  assume "trim (message ci) = [] \<and> uploadedFiles ci = []"
  then show "submit ci rid reply st = ([], st)"
    using handleSubmit_blank_nothing [of ci] by (simp add: submit_def)
next
  assume a: "trim (if truthyOpt mo then the mo else prompt st) = []
        \<and> (case ei of Some imgs \<Rightarrow> imgs | None \<Rightarrow> uploadedImages st) \<noteq> []"
  then have b: "\<not> truthyStr (trim (if truthyOpt mo then the mo else prompt st))"
    by (simp add: truthyStr_def)
  have n: "trim ((js ''Please analyze the uploaded image(s).'') @
                 (if mode st = ChatMode then chatModeSuffix else [])) \<noteq> []"
    by (simp add: trim_def isWhiteSpace_def chatModeSuffix_def)
  show "\<exists>body. posted (fst (runAct mo ei rid reply st)) = [(mode st, body)]
          \<and> rb_instruction body = js ''Please analyze the uploaded image(s).'' @
                                   (if mode st = ChatMode then chatModeSuffix else [])
          \<and> trim (rb_instruction body) \<noteq> []
          \<and> rb_images body = map processImage
                                (case ei of Some imgs \<Rightarrow> imgs | None \<Rightarrow> uploadedImages st)"
    using posted_runAct_blank_images [OF b, of ei rid reply] a n by simp
next
  assume a: "trim (if truthyOpt mo then the mo else prompt st) = []
        \<and> (case ei of Some imgs \<Rightarrow> imgs | None \<Rightarrow> uploadedImages st) = []"
  then have "\<not> truthyStr (trim (if truthyOpt mo then the mo else prompt st))"
    by (simp add: truthyStr_def)
  then show "runAct mo ei rid reply st = ([AlertEmptyInput], st)"
    using a by (intro runAct_blank_no_images) simp_all
qed

text \<open>
  The theorem at a submission of one file with a blank text, at a submission of
  nothing, and at \<open>runAct\<close> called with a blank instruction, with one image in chat
  mode and with none.
\<close>

theorem C5_default_instruction_witness:
  "\<not> disabled onlyFile \<and> trim (message onlyFile) = [] \<and> uploadedFiles onlyFile \<noteq> []
   \<and> map (rb_instruction \<circ> snd) (posted (fst (submit onlyFile (js ''r1'') (Ok None) initialPage))) =
        [(js ''Please analyze the uploaded file(s).'')]
   \<and> map (rb_images \<circ> snd) (posted (fst (submit onlyFile (js ''r1'') (Ok None) initialPage))) =
        [ [PathRef (js ''/data/projects/p1/assets/chart.png'') (js ''chart.png'')] ]
   \<and> trim (message nothingEntered) = [] \<and> uploadedFiles nothingEntered = []
   \<and> submit nothingEntered (js ''r2'') (Ok None) initialPage = ([], initialPage)
   \<and> map (rb_instruction \<circ> snd)
        (posted (fst (runAct (Some (js '' '')) (Some [asImage sampleFile]) (js ''r3'') (Ok None) chatPage))) =
        [(js ''Please analyze the uploaded image(s).'') @ chatModeSuffix]
   \<and> runAct None (Some []) (js ''r4'') (Ok None) initialPage = ([AlertEmptyInput], initialPage)"
proof -
  have h1: "\<not> disabled onlyFile \<and> trim (message onlyFile) = [] \<and> uploadedFiles onlyFile \<noteq> []"
    by (simp add: onlyFile_def trim_def isWhiteSpace_def)
  have h2: "trim (message nothingEntered) = [] \<and> uploadedFiles nothingEntered = []"
    by (simp add: nothingEntered_def trim_def isWhiteSpace_def)
  have h3: "trim (if truthyOpt (Some (js '' '')) then the (Some (js '' '')) else prompt chatPage) = []
        \<and> (case Some [asImage sampleFile] of Some imgs \<Rightarrow> imgs | None \<Rightarrow> uploadedImages chatPage) \<noteq> []"
    by (simp add: trim_def isWhiteSpace_def truthyOpt_def truthyStr_def)
  have h4: "trim (if truthyOpt None then the None else prompt initialPage) = []
        \<and> (case Some [] of Some imgs \<Rightarrow> imgs | None \<Rightarrow> uploadedImages initialPage) = []"
    by (simp add: trim_def truthyOpt_def initialPage_def)
  have m: "mode initialPage = ActMode" "mode chatPage = ChatMode"
    by (simp_all add: initialPage_def chatPage_def)
  have f: "map (\<lambda>f. processImage (asImage f)) (uploadedFiles onlyFile) =
             [PathRef (js ''/data/projects/p1/assets/chart.png'') (js ''chart.png'')]"
    by (simp add: onlyFile_def sampleFile_def processImage_def asImage_def truthyOpt_def truthyStr_def)
  from C5_default_instruction [of onlyFile "(js ''r1'')" "Ok None" initialPage None None,
      THEN conjunct1, rule_format, OF h1]
  obtain body where "posted (fst (submit onlyFile (js ''r1'') (Ok None) initialPage)) =
        [(mode initialPage, body)]"
    and "rb_instruction body = js ''Please analyze the uploaded file(s).'' @
           (if mode initialPage = ChatMode then chatModeSuffix else [])"
    and "rb_images body = map (\<lambda>f. processImage (asImage f)) (uploadedFiles onlyFile)"
    by blast
  then have a: "map (rb_instruction \<circ> snd) (posted (fst (submit onlyFile (js ''r1'') (Ok None) initialPage))) =
        [(js ''Please analyze the uploaded file(s).'')]
      \<and> map (rb_images \<circ> snd) (posted (fst (submit onlyFile (js ''r1'') (Ok None) initialPage))) =
        [ [PathRef (js ''/data/projects/p1/assets/chart.png'') (js ''chart.png'')] ]"
    using m f by simp
  from C5_default_instruction [of nothingEntered "(js ''r2'')" "Ok None" initialPage None None,
      THEN conjunct2, THEN conjunct1, rule_format, OF h2]
  have b: "submit nothingEntered (js ''r2'') (Ok None) initialPage = ([], initialPage)" .
  from C5_default_instruction [of onlyFile "(js ''r3'')" "Ok None" chatPage "Some (js '' '')"
      "Some [asImage sampleFile]", THEN conjunct2, THEN conjunct2, THEN conjunct1, rule_format, OF h3]
  obtain body3 where "posted (fst (runAct (Some (js '' '')) (Some [asImage sampleFile]) (js ''r3'') (Ok None)
        chatPage)) = [(mode chatPage, body3)]"
    and "rb_instruction body3 = js ''Please analyze the uploaded image(s).'' @
           (if mode chatPage = ChatMode then chatModeSuffix else [])"
    by blast
  then have c: "map (rb_instruction \<circ> snd)
        (posted (fst (runAct (Some (js '' '')) (Some [asImage sampleFile]) (js ''r3'') (Ok None) chatPage))) =
        [(js ''Please analyze the uploaded image(s).'') @ chatModeSuffix]"
    using m by simp
  from C5_default_instruction [of onlyFile "(js ''r4'')" "Ok None" initialPage None "Some []",
      THEN conjunct2, THEN conjunct2, THEN conjunct2, rule_format, OF h4]
  have d: "runAct None (Some []) (js ''r4'') (Ok None) initialPage = ([AlertEmptyInput], initialPage)" .
  from h1 h2 a b c d show ?thesis by blast
qed

text \<open>
  The claim as it stands fails for the initial prompt of the page URL, which is sent
  by \<open>sendInitialPrompt\<close> and not by \<open>runAct\<close>: the trigger tests that the prompt
  is not empty, nothing tests that it is not blank. A page opened with the prompt
  \<open>' '\<close> posts that instruction, with no image, when its timer fires.
\<close>

theorem C5_blank_initial_prompt_is_posted:
  "truthyOpt (urlInitialPrompt blankPromptUrlPage)
   \<and> trim (the (urlInitialPrompt blankPromptUrlPage)) = []
   \<and> map snd (posted (calls (runPage
          [ProjectLoadedActive,
           TimerFired \<lparr>cap_initialPromptSent = False, cap_sessionId = []\<rparr> (js ''r7'') (Ok None)]
          (mounted blankPromptUrlPage)))) =
       [\<lparr> rb_instruction = js '' '', rb_images = [], rb_is_initial_prompt = True,
          rb_cli_preference = None, rb_selected_model = None, rb_request_id = js ''r7'',
          rb_session_id = None \<rparr>]"
  by (simp add: mounted_def blankPromptUrlPage_def initialPage_def trigger_def
        triggerInitialPromptIfNeeded_def truthyOpt_def truthyStr_def sendInitialPrompt_def Let_def
        posted_def nonEmptyOrNull_def trim_def isWhiteSpace_def)

section \<open>The chat-mode suffix and its removal\<close>





















section \<open>The preview and the activity of the project\<close>

lemma stop_calls: "fst (stop reply st) = [PostPreviewStop]"
  by (simp add: stop_def)

lemma stop_completes:
  "reply \<noteq> Threw \<Longrightarrow>
   snd (stop reply st) = st\<lparr>previewUrl := None, recordInterruptState := False, currentRoute := []\<rparr>"
  by (cases reply) (simp_all add: stop_def)

lemma start_calls:
  "fst (start url reply st) =
     (if recordInterruptState st then [PostPreviewStop]
      else if truthyStr url then [] else [PostPreviewStart])"
  by (cases reply) (simp_all add: start_def stop_def Let_def)

lemma start_interrupted: "recordInterruptState st \<Longrightarrow> start url reply st = stop reply st"
  by (simp add: start_def)

lemma start_ok_url:
  "\<not> recordInterruptState st \<Longrightarrow> previewUrl (snd (start [] (Ok u) st)) = u"
  by (simp add: start_def truthyStr_def)

lemma perform_actions:
  "perform (previewActions active st) reply st =
     (if active \<and> truthyOpt (previewUrl st) then stop reply st
      else if previousActiveState st \<and> \<not> active \<and> \<not> truthyOpt (previewUrl st)
      then start [] reply st else ([], st))"
  by (auto simp: previewActions_def split: prod.splits)

lemma autoPreviewEffect_eq:
  "autoPreviewEffect active reply st =
     (fst (perform (previewActions active st) reply st),
      (snd (perform (previewActions active st) reply st))\<lparr>previousActiveState := active\<rparr>)"
  by (simp add: autoPreviewEffect_def split: prod.splits)

lemma autoPreviewEffect_calls:
  "fst (autoPreviewEffect active reply st) =
     (if active \<and> truthyOpt (previewUrl st) then [PostPreviewStop]
      else if previousActiveState st \<and> \<not> active \<and> \<not> truthyOpt (previewUrl st)
      then (if recordInterruptState st then [PostPreviewStop] else [PostPreviewStart])
      else [])"
  by (simp add: autoPreviewEffect_eq perform_actions stop_calls start_calls truthyStr_def)

lemma onSessionStatusChange_calls:
  "fst (onSessionStatusChange v reply st) =
     (if \<not> v \<and> hasInitialPrompt st \<and> \<not> agentWorkComplete st \<and> \<not> truthyOpt (previewUrl st)
      then (if recordInterruptState st then [PostPreviewStop] else [PostPreviewStart])
      else [])"
  by (simp add: onSessionStatusChange_def Let_def start_calls truthyStr_def)

text \<open>
  Claim C3, as the page has it. When the project has active requests and a preview
  URL is set, the effect invokes \<open>stop\<close>: the stop request is posted and, once it
  completes, the preview URL is cleared. When the project had active requests at the
  last run of the effect, has none now, and no preview URL is set, the effect invokes
  \<open>start\<close>: with no interrupt on record the start request is posted and the URL of
  the reply becomes the preview URL; with an interrupt on record the stop request is
  posted in its place. The effect posts a start request in no other state, so not
  when the project is idle and was idle at the last run, and the callback
  \<open>onSessionStatusChange\<close> posts one only when it is told that the session does not
  run.
\<close>

theorem C3_preview_follows_activity:
  "(active \<and> truthyOpt (previewUrl st) \<longrightarrow>
       previewActions active st = [InvokeStop]
     \<and> fst (autoPreviewEffect active reply st) = [PostPreviewStop]
     \<and> (reply \<noteq> Threw \<longrightarrow> previewUrl (snd (autoPreviewEffect active reply st)) = None))
   \<and> (previousActiveState st \<and> \<not> active \<and> \<not> truthyOpt (previewUrl st) \<longrightarrow>
       previewActions active st = [InvokeStart]
     \<and> fst (autoPreviewEffect active reply st) =
         (if recordInterruptState st then [PostPreviewStop] else [PostPreviewStart])
     \<and> (\<not> recordInterruptState st \<longrightarrow>
          previewUrl (snd (autoPreviewEffect active (Ok u) st)) = u))
   \<and> (PostPreviewStart \<in> set (fst (autoPreviewEffect active reply st)) \<longrightarrow>
       previousActiveState st \<and> \<not> active \<and> \<not> truthyOpt (previewUrl st)
     \<and> \<not> recordInterruptState st)
   \<and> (InvokeStart \<in> set (previewActions active st) \<longrightarrow>
       previousActiveState st \<and> \<not> active \<and> \<not> truthyOpt (previewUrl st))
   \<and> (PostPreviewStart \<in> set (fst (onSessionStatusChange v reply st)) \<longrightarrow>
       \<not> v \<and> \<not> truthyOpt (previewUrl st) \<and> \<not> recordInterruptState st)
   \<and> previousActiveState (snd (autoPreviewEffect active reply st)) = active"
proof (intro conjI impI)
  assume a: "active \<and> truthyOpt (previewUrl st)"
  then show "previewActions active st = [InvokeStop]" by (simp add: previewActions_def)
  from a show "fst (autoPreviewEffect active reply st) = [PostPreviewStop]"
    by (simp add: autoPreviewEffect_calls)
  assume "reply \<noteq> Threw"
  with a show "previewUrl (snd (autoPreviewEffect active reply st)) = None"
    by (simp add: autoPreviewEffect_eq perform_actions stop_completes)
next
  assume a: "previousActiveState st \<and> \<not> active \<and> \<not> truthyOpt (previewUrl st)"
  then show "previewActions active st = [InvokeStart]" by (simp add: previewActions_def)
  from a show "fst (autoPreviewEffect active reply st) =
         (if recordInterruptState st then [PostPreviewStop] else [PostPreviewStart])"
    by (simp add: autoPreviewEffect_calls)
  assume "\<not> recordInterruptState st"
  with a show "previewUrl (snd (autoPreviewEffect active (Ok u) st)) = u"
    by (simp add: autoPreviewEffect_eq perform_actions start_ok_url)
next
  assume "PostPreviewStart \<in> set (fst (autoPreviewEffect active reply st))"
  then have "previousActiveState st \<and> \<not> active \<and> \<not> truthyOpt (previewUrl st)
     \<and> \<not> recordInterruptState st"
    by (simp add: autoPreviewEffect_calls split: if_splits)
  then show "previousActiveState st" "\<not> active" "\<not> truthyOpt (previewUrl st)"
    "\<not> recordInterruptState st" by simp_all
next
  assume "InvokeStart \<in> set (previewActions active st)"
  then have "previousActiveState st \<and> \<not> active \<and> \<not> truthyOpt (previewUrl st)"
    by (simp add: previewActions_def split: if_splits)
  then show "previousActiveState st" "\<not> active" "\<not> truthyOpt (previewUrl st)" by simp_all
next
  assume "PostPreviewStart \<in> set (fst (onSessionStatusChange v reply st))"
  then have "\<not> v \<and> \<not> truthyOpt (previewUrl st) \<and> \<not> recordInterruptState st"
    by (simp add: onSessionStatusChange_calls split: if_splits)
  then show "\<not> v" "\<not> truthyOpt (previewUrl st)" "\<not> recordInterruptState st" by simp_all
next
  show "previousActiveState (snd (autoPreviewEffect active reply st)) = active"
    by (simp add: autoPreviewEffect_eq)
qed

text \<open>
  The theorem at a page with a preview when requests become active, at a page without
  one when they end, at a freshly rendered idle page, and at the callback of a page
  with an initial prompt.
\<close>

theorem C3_preview_follows_activity_witness:
  "truthyOpt (previewUrl previewingPage)
   \<and> fst (autoPreviewEffect True (Ok None) previewingPage) = [PostPreviewStop]
   \<and> previewUrl (snd (autoPreviewEffect True (Ok None) previewingPage)) = None
   \<and> previousActiveState finishedPage \<and> \<not> truthyOpt (previewUrl finishedPage)
   \<and> \<not> recordInterruptState finishedPage
   \<and> fst (autoPreviewEffect False (Ok (Some (js ''http://localhost:3000''))) finishedPage) =
        [PostPreviewStart]
   \<and> previewUrl (snd (autoPreviewEffect False (Ok (Some (js ''http://localhost:3000''))) finishedPage)) =
        Some (js ''http://localhost:3000'')
   \<and> InvokeStart \<in> set (previewActions False finishedPage)
   \<and> fst (autoPreviewEffect False (Ok None) initialPage) = []
   \<and> PostPreviewStart \<in> set (fst (onSessionStatusChange False (Ok None) promptedPage))"
proof -
  have h1: "True \<and> truthyOpt (previewUrl previewingPage)"
    by (simp add: previewingPage_def truthyOpt_def truthyStr_def)
  have h2: "previousActiveState finishedPage \<and> \<not> False \<and> \<not> truthyOpt (previewUrl finishedPage)"
    by (simp add: finishedPage_def initialPage_def truthyOpt_def)
  have h3: "\<not> recordInterruptState finishedPage"
    by (simp add: finishedPage_def initialPage_def)
  note T = C3_preview_follows_activity
  have r: "Ok None \<noteq> Threw" by simp
  from T [of True previewingPage "Ok None" _ False, THEN conjunct1, rule_format, OF h1]
  have a: "fst (autoPreviewEffect True (Ok None) previewingPage) = [PostPreviewStop]"
    and "Ok None \<noteq> Threw \<longrightarrow> previewUrl (snd (autoPreviewEffect True (Ok None) previewingPage)) = None"
    by blast+
  then have a2: "previewUrl (snd (autoPreviewEffect True (Ok None) previewingPage)) = None"
    using r by blast
  from T [of False finishedPage "Ok (Some (js ''http://localhost:3000''))" "Some (js ''http://localhost:3000'')"
      False, THEN conjunct2, THEN conjunct1, rule_format, OF h2]
  have b0: "previewActions False finishedPage = [InvokeStart]"
    and b1: "fst (autoPreviewEffect False (Ok (Some (js ''http://localhost:3000''))) finishedPage) =
         (if recordInterruptState finishedPage then [PostPreviewStop] else [PostPreviewStart])"
    and b2: "\<not> recordInterruptState finishedPage \<longrightarrow>
          previewUrl (snd (autoPreviewEffect False (Ok (Some (js ''http://localhost:3000''))) finishedPage))
            = Some (js ''http://localhost:3000'')"
    by blast+
  have c: "PostPreviewStart \<in> set (fst (onSessionStatusChange False (Ok None) promptedPage))"
    by (simp add: onSessionStatusChange_calls promptedPage_def initialPage_def truthyOpt_def)
  have d: "fst (autoPreviewEffect False (Ok None) initialPage) = []"
    by (simp add: autoPreviewEffect_calls initialPage_def)
  from h1 h2 h3 a a2 b0 b1 b2 c d show ?thesis by simp
qed

text \<open>
  Claim C3 as it is stated fails: the project had active requests and has none now,
  no preview URL is set, and an interrupt is on record. The effect invokes \<open>start\<close>,
  which posts the stop request and no start request, and no preview URL is set,
  although the server would have answered with one.
\<close>

theorem C3_interrupted_session_starts_no_preview:
  "previousActiveState interruptedPage
   \<and> \<not> truthyOpt (previewUrl interruptedPage)
   \<and> fst (autoPreviewEffect False (Ok (Some (js ''http://localhost:3000''))) interruptedPage) =
        [PostPreviewStop]
   \<and> PostPreviewStart
        \<notin> set (fst (autoPreviewEffect False (Ok (Some (js ''http://localhost:3000''))) interruptedPage))
   \<and> previewUrl (snd (autoPreviewEffect False (Ok (Some (js ''http://localhost:3000'')))
        interruptedPage)) = None"
  by (simp add: autoPreviewEffect_def previewActions_def interruptedPage_def initialPage_def
        truthyOpt_def start_def stop_def)

section \<open>Starting the preview after an interrupt\<close>

text \<open>
  Claim C10. With an interrupt on record, a call of \<open>start\<close> is a call of \<open>stop\<close>: it
  posts the stop request and no start request. When the stop request completes, the
  record of the interrupt is cleared and the preview URL is unset, and the call of
  \<open>start\<close> after it posts the start request; when the stop request throws, the state
  is as before. No call of \<open>start\<close> posts a start request while an interrupt is on
  record.
\<close>

theorem C10_start_after_interrupt:
  "recordInterruptState st \<Longrightarrow>
     start url reply st = stop reply st
   \<and> fst (start url reply st) = [PostPreviewStop]
   \<and> PostPreviewStart \<notin> set (fst (start url reply st))
   \<and> previewUrl (snd (start url reply st)) = (if reply = Threw then previewUrl st else None)
   \<and> recordInterruptState (snd (start url reply st)) = (reply = Threw)
   \<and> (reply \<noteq> Threw \<longrightarrow> fst (start [] reply2 (snd (start url reply st))) = [PostPreviewStart])
   \<and> (\<forall>st2 url2 reply3. PostPreviewStart \<in> set (fst (start url2 reply3 st2)) \<longrightarrow>
        \<not> recordInterruptState st2)"
proof -
  assume f: "recordInterruptState st"
  have e: "start url r st = stop r st" for r using f by (rule start_interrupted)
  have "fst (start url reply st) = [PostPreviewStop]" by (simp add: e stop_calls)
  moreover have "previewUrl (snd (start url reply st)) = (if reply = Threw then previewUrl st else None)"
    by (cases reply) (simp_all add: e stop_def)
  moreover have "recordInterruptState (snd (start url reply st)) = (reply = Threw)"
    using f by (cases reply) (simp_all add: e stop_def)
  moreover have "reply \<noteq> Threw \<longrightarrow>
      fst (start [] reply2 (snd (start url reply st))) = [PostPreviewStart]"
    by (cases reply) (simp_all add: e stop_def start_calls truthyStr_def)
  moreover have "\<forall>st2 url2 reply3. PostPreviewStart \<in> set (fst (start url2 reply3 st2)) \<longrightarrow>
        \<not> recordInterruptState st2"
    by (simp add: start_calls split: if_splits)
  ultimately show ?thesis using e [of reply] by simp
qed

text \<open>
  The theorem at a page with a preview where \<open>chatInputStop\<close> has just recorded an
  interrupt: \<open>start\<close> stops the preview and clears the record, the \<open>start\<close> after it
  posts the start request.
\<close>

theorem C10_start_after_interrupt_witness:
  "snd (chatInputStop (Ok None) previewingPage) =
     (previewingPage\<lparr>recordInterruptState := True\<rparr>, False)
   \<and> recordInterruptState (previewingPage\<lparr>recordInterruptState := True\<rparr>)
   \<and> fst (start [] (Ok None) (previewingPage\<lparr>recordInterruptState := True\<rparr>)) = [PostPreviewStop]
   \<and> previewUrl (snd (start [] (Ok None) (previewingPage\<lparr>recordInterruptState := True\<rparr>))) = None
   \<and> recordInterruptState (snd (start [] (Ok None) (previewingPage\<lparr>recordInterruptState := True\<rparr>)))
        = False
   \<and> fst (start [] (Ok (Some (js ''http://localhost:3000'')))
        (snd (start [] (Ok None) (previewingPage\<lparr>recordInterruptState := True\<rparr>)))) =
        [PostPreviewStart]
   \<and> PostPreviewStart \<in> set (fst (start [] (Ok None) finishedPage))
   \<and> \<not> recordInterruptState finishedPage"
proof -
  let ?st = "previewingPage\<lparr>recordInterruptState := True\<rparr>"
  have h: "recordInterruptState ?st" by simp
  have c: "snd (chatInputStop (Ok None) previewingPage) = (?st, False)"
    by (simp add: chatInputStop_def)
  have r: "Ok None \<noteq> Threw" by simp
  have p: "PostPreviewStart \<in> set (fst (start [] (Ok None) finishedPage))"
    by (simp add: start_calls finishedPage_def initialPage_def truthyStr_def)
  note T = C10_start_after_interrupt [OF h, of "[]" "Ok None" "Ok (Some (js ''http://localhost:3000''))"]
  from T have "fst (start [] (Ok None) ?st) = [PostPreviewStop]" by blast
  moreover from T have "previewUrl (snd (start [] (Ok None) ?st)) =
      (if Ok None = Threw then previewUrl ?st else None)" by blast
  then have "previewUrl (snd (start [] (Ok None) ?st)) = None" by simp
  moreover from T have "recordInterruptState (snd (start [] (Ok None) ?st)) = (Ok None = Threw)"
    by blast
  then have "recordInterruptState (snd (start [] (Ok None) ?st)) = False" by simp
  moreover from T r have "fst (start [] (Ok (Some (js ''http://localhost:3000'')))
        (snd (start [] (Ok None) ?st))) = [PostPreviewStart]" by blast
  moreover from T p have "\<not> recordInterruptState finishedPage" by blast
  ultimately show ?thesis using h c p by blast
qed

text \<open>
  Claim C10 as it is stated fails when the stop request throws: \<open>stop\<close> catches the
  error and changes nothing, so the record of the interrupt is not cleared.
\<close>

theorem C10_stop_request_throws:
  "recordInterruptState interruptedPage
   \<and> fst (start [] Threw interruptedPage) = [PostPreviewStop]
   \<and> recordInterruptState (snd (start [] Threw interruptedPage))
   \<and> snd (start [] Threw interruptedPage) = interruptedPage"
  by (simp add: start_def stop_def interruptedPage_def)

section \<open>The initial prompt is sent once\<close>

lemma posted_append: "posted (xs @ ys) = posted xs @ posted ys"
  by (simp add: posted_def)

lemma initialPromptPosts_append:
  "initialPromptPosts (xs @ ys) = initialPromptPosts xs @ initialPromptPosts ys"
  by (simp add: initialPromptPosts_def posted_append)

lemma sendInitialPrompt_posts:
  "length (initialPromptPosts (fst (sendInitialPrompt cap p rid reply st))) \<le> 1"
  by (cases reply) (simp_all add: sendInitialPrompt_def initialPromptPosts_def posted_def Let_def)

lemma sendInitialPrompt_ref:
  "initialPromptSentRef (snd (sendInitialPrompt cap p rid reply st)) = initialPromptSentRef st"
  by (cases reply) (simp_all add: sendInitialPrompt_def Let_def)

lemma trigger_ref_set:
  "initialPromptSentRef st \<Longrightarrow> triggerInitialPromptIfNeeded st = (None, st)"
  by (simp add: triggerInitialPromptIfNeeded_def)

lemma trigger_cases:
  "triggerInitialPromptIfNeeded st = (r, st1) \<Longrightarrow>
     (r = None \<and> st1 = st) \<or>
     (r \<noteq> None \<and> \<not> initialPromptSentRef st \<and> initialPromptSentRef st1)"
  by (auto simp: triggerInitialPromptIfNeeded_def Let_def truthyOpt_def split: if_splits option.splits)

lemma promptInv_trigger: "promptInv lt \<Longrightarrow> promptInv (trigger lt)"
proof -
  assume inv: "promptInv lt"
  obtain r st1 where t: "triggerInitialPromptIfNeeded (page lt) = (r, st1)"
    by (cases "triggerInitialPromptIfNeeded (page lt)")
  from trigger_cases [OF t] show ?thesis
  proof
    assume "r = None \<and> st1 = page lt"
    then show ?thesis using inv t by (simp add: trigger_def)
  next
    assume a: "r \<noteq> None \<and> \<not> initialPromptSentRef (page lt) \<and> initialPromptSentRef st1"
    then obtain p where "r = Some p" by auto
    then show ?thesis using inv t a by (simp add: trigger_def promptInv_def)
  qed
qed

lemma promptInv_step: "promptInv lt \<Longrightarrow> promptInv (pageStep e lt)"
proof (cases e)
  case ProjectLoadedActive
  assume "promptInv lt"
  then show ?thesis using ProjectLoadedActive by (simp add: promptInv_trigger)
next
  case StatusBecameActive
  assume "promptInv lt"
  then show ?thesis using StatusBecameActive by (simp add: promptInv_trigger)
next
  case (TimerFired cap rid reply)
  assume inv: "promptInv lt"
  show ?thesis
  proof (cases "pending lt")
    case Nil
    then show ?thesis using inv TimerFired by simp
  next
    case (Cons p ps)
    with inv have ref: "initialPromptSentRef (page lt)" and ps: "ps = []"
      and none: "initialPromptPosts (calls lt) = []"
      by (auto simp: promptInv_def)
    show ?thesis
      using TimerFired Cons ref ps none sendInitialPrompt_posts [of cap p rid reply "page lt"]
        sendInitialPrompt_ref [of cap p rid reply "page lt"]
      by (simp add: promptInv_def initialPromptPosts_append split: prod.splits)
         (metis fst_conv snd_conv)
  qed
next
  case (UrlChanged q)
  assume "promptInv lt"
  then show ?thesis using UrlChanged by (simp add: promptInv_def)
qed

lemma promptInv_run: "promptInv lt \<Longrightarrow> promptInv (runPage es lt)"
  by (induction es arbitrary: lt) (simp_all add: promptInv_step)

lemma promptInv_mounted: "promptInv (mounted st)"
  by (simp add: promptInv_def mounted_def initialPromptPosts_def posted_def)

lemma ref_kept: "initialPromptSentRef (page lt) \<Longrightarrow> initialPromptSentRef (page (pageStep e lt))"
proof (cases e)
  case (TimerFired cap rid reply)
  assume "initialPromptSentRef (page lt)"
  then show ?thesis using TimerFired sendInitialPrompt_ref [of cap _ rid reply "page lt"]
    by (auto split: list.splits prod.splits) (metis snd_conv)
qed (simp_all add: trigger_def trigger_ref_set)

text \<open>
  Claim C9. In every life of a page, whatever the order in which the two paths call
  the trigger, the timers fire, the sends succeed or fail and the query string
  changes, one initial prompt is posted at most. No step of the page resets the ref
  once it is set, and with the ref set the trigger sets no timer, whatever the
  state \<open>initialPromptSent\<close> is.
\<close>

theorem C9_initial_prompt_once:
  "length (initialPromptPosts (calls (runPage es (mounted st)))) \<le> 1
   \<and> (\<forall>lt e. initialPromptSentRef (page lt) \<longrightarrow>
         initialPromptSentRef (page (pageStep e lt))
       \<and> fst (triggerInitialPromptIfNeeded (page lt)) = None)"
proof -
  have "promptInv (runPage es (mounted st))" by (rule promptInv_run [OF promptInv_mounted])
  then have "length (initialPromptPosts (calls (runPage es (mounted st)))) \<le> 1"
    by (simp add: promptInv_def)
  then show ?thesis using ref_kept by (simp add: trigger_ref_set)
qed

text \<open>
  The theorem at a page whose URL carries an initial prompt: both paths call the
  trigger, the send fails and resets \<open>initialPromptSent\<close>, both paths call the
  trigger again and a timer event follows. One initial prompt was posted, the ref is
  set, and the trigger sets no further timer.
\<close>

theorem C9_initial_prompt_once_witness:
  "initialPromptSentRef (page (runPage failedThenRetried (mounted promptedUrlPage)))
   \<and> \<not> initialPromptSent (page (runPage failedThenRetried (mounted promptedUrlPage)))
   \<and> fst (triggerInitialPromptIfNeeded (page (runPage failedThenRetried (mounted promptedUrlPage))))
        = None
   \<and> length (initialPromptPosts (calls (runPage failedThenRetried (mounted promptedUrlPage)))) = 1"
proof -
  let ?lt = "runPage failedThenRetried (mounted promptedUrlPage)"
  have e: "initialPromptSentRef (page ?lt) \<and> \<not> initialPromptSent (page ?lt)
           \<and> 1 \<le> length (initialPromptPosts (calls ?lt))"
    by (simp add: failedThenRetried_def mounted_def promptedUrlPage_def initialPage_def trigger_def
        triggerInitialPromptIfNeeded_def sendInitialPrompt_def truthyOpt_def truthyStr_def
        initialPromptPosts_def posted_def nonEmptyOrNull_def Let_def)
  note T = C9_initial_prompt_once [of failedThenRetried promptedUrlPage]
  from T have le: "length (initialPromptPosts (calls ?lt)) \<le> 1" by blast
  from T e have "fst (triggerInitialPromptIfNeeded (page ?lt)) = None" by blast
  with e le show ?thesis by simp
qed

end
